theory Spec2Isabelle
  imports Complex_Main
begin

section \<open>The Farcaster identity card mini app\<close>

text \<open>
  A shallow embedding of the dashboard component (\<^verbatim>\<open>src/components/Dashboard.tsx\<close>)
  and of the application shell that drives it (\<^verbatim>\<open>App.tsx\<close>): the display helpers,
  the background cycle, the Recent Activity view, the image pipeline
  (rasterise, read as a data URL, upload) and the Neynar data loader.

  JavaScript strings are modelled as \<^typ>\<open>string\<close>; \<^verbatim>\<open>undefined\<close> and
  \<^verbatim>\<open>null\<close> of an optional value are \<^term>\<open>None\<close>; integral counts are
  \<^typ>\<open>int\<close>, and their sums are rounded as doubles. A rejected promise or a thrown exception is the left injection of a
  sum; console output, alerts and calls into libraries and the network are events of a
  trace.
\<close>

subsection \<open>JavaScript primitives used by the sources\<close>

text \<open>
  \<^verbatim>\<open>String.prototype.slice(start, end)\<close>: a negative index counts from the end of the
  string, both indices are clamped to the string, and an empty range gives the empty string.
\<close>

definition slice_index :: "nat \<Rightarrow> int \<Rightarrow> nat" where
  "slice_index len i = (if i < 0 then nat (max (int len + i) 0) else min (nat i) len)"

definition js_slice :: "string \<Rightarrow> int \<Rightarrow> int option \<Rightarrow> string" where
  "js_slice s start end =
     (let len = length s;
          from = slice_index len start;
          to = (case end of None \<Rightarrow> len | Some e \<Rightarrow> slice_index len e)
      in take (to - from) (drop from s))"

text \<open>Truthiness of an optional string: \<^verbatim>\<open>undefined\<close> and \<^verbatim>\<open>''\<close> are falsy.\<close>

definition truthy :: "string option \<Rightarrow> bool" where
  "truthy v = (case v of None \<Rightarrow> False | Some s \<Rightarrow> s \<noteq> [])"

text \<open>\<^verbatim>\<open>Array.prototype.indexOf\<close>: the first index holding the value, \<open>-1\<close> when there is none.\<close>

fun indexOf_from :: "'a list \<Rightarrow> 'a \<Rightarrow> int \<Rightarrow> int" where
  "indexOf_from [] x i = - 1"
| "indexOf_from (y # ys) x i = (if y = x then i else indexOf_from ys x (i + 1))"

definition indexOf :: "'a list \<Rightarrow> 'a \<Rightarrow> int" where
  "indexOf xs x = indexOf_from xs x 0"

text \<open>The remainder operator \<^verbatim>\<open>%\<close> truncates towards zero: the result has the sign of the dividend.\<close>

definition js_rem :: "int \<Rightarrow> int \<Rightarrow> int" where
  "js_rem a b = sgn a * (\<bar>a\<bar> mod \<bar>b\<bar>)"

subsection \<open>Dashboard: formatting an address\<close>

text \<open>
  \<^verbatim>\<open>
  const formatAddress = (address?: string) => {
    if (!address) return "Not connected";
    return `${address.slice(0, 6)}...${address.slice(-4)}`;
  };
  \<close>
\<close>

definition formatAddress :: "string option \<Rightarrow> string" where
  "formatAddress address =
     (if \<not> truthy address then ''Not connected''
      else (case address of
              None \<Rightarrow> ''Not connected''
            | Some a \<Rightarrow> js_slice a 0 (Some 6) @ ''...'' @ js_slice a (- 4) None))"

subsection \<open>Dashboard: cycling the card background\<close>

definition backgroundOptions :: "string list" where
  "backgroundOptions =
     [''linear-gradient(135deg, #667eea 0%, #764ba2 100%)'',
      ''linear-gradient(135deg, #f093fb 0%, #f5576c 100%)'',
      ''linear-gradient(135deg, #4facfe 0%, #00f2fe 100%)'',
      ''linear-gradient(135deg, #43e97b 0%, #38f9d7 100%)'',
      ''linear-gradient(135deg, #fa709a 0%, #fee140 100%)'',
      ''#020617'']"

text \<open>
  \<^verbatim>\<open>
  const changeCardBackground = () => {
    const currentIndex = backgroundOptions.indexOf(cardBackground);
    const nextIndex = (currentIndex + 1) % backgroundOptions.length;
    setCardBackground(backgroundOptions[nextIndex]);
  };
  \<close>
  The function is modelled on the \<^verbatim>\<open>cardBackground\<close> state: it takes the current value
  and returns the value passed to \<^verbatim>\<open>setCardBackground\<close>. \<open>nextIndex\<close> is never
  out of range (lemma \<open>nextIndex_in_range\<close>), so the array read always finds an entry.
\<close>

definition nextIndex :: "string \<Rightarrow> int" where
  "nextIndex cardBackground =
     js_rem (indexOf backgroundOptions cardBackground + 1) (int (length backgroundOptions))"

definition changeCardBackground :: "string \<Rightarrow> string" where
  "changeCardBackground cardBackground = backgroundOptions ! nat (nextIndex cardBackground)"

subsection \<open>Dashboard: the Recent Activity list\<close>

text \<open>The type \<^verbatim>\<open>RecentCast\<close> of \<^verbatim>\<open>types.ts\<close>, with the type of the two counts left open.\<close>

record 'v recent_cast =
  rc_hash :: "string option"
  rc_text :: string
  rc_timestamp :: "string option"
  rc_likes :: 'v
  rc_recasts :: 'v

text \<open>
  The children of \<^verbatim>\<open>div.fc-activity-list\<close>. A cast item carries its React key, the text
  shown (\<^verbatim>\<open>cast.text || "(no text)"\<close>), the timestamp handed to \<^verbatim>\<open>formatTimestamp\<close>
  (whose locale-dependent output is not modelled) and the two counts.
\<close>

datatype 'v activity_item =
    LoadingItem
  | CastItem "string option" string "string option" 'v 'v
  | NoCastsItem
  | SampleItem

definition isLoadingCasts :: "'v recent_cast list option \<Rightarrow> bool" where
  "isLoadingCasts recentCasts = (recentCasts = None)"

definition hasRealActivity :: "'v recent_cast list option \<Rightarrow> bool" where
  "hasRealActivity recentCasts =
     (case recentCasts of None \<Rightarrow> False | Some cs \<Rightarrow> length cs > 0)"

definition castItem :: "'v recent_cast \<Rightarrow> 'v activity_item" where
  "castItem c =
     CastItem (rc_hash c) (if rc_text c = [] then ''(no text)'' else rc_text c)
       (rc_timestamp c) (rc_likes c) (rc_recasts c)"

definition activityList :: "'v recent_cast list option \<Rightarrow> 'v activity_item list" where
  "activityList recentCasts =
     (if isLoadingCasts recentCasts then [LoadingItem]
      else if hasRealActivity recentCasts then
        (case recentCasts of None \<Rightarrow> [] | Some cs \<Rightarrow> map castItem cs)
      else [NoCastsItem, SampleItem])"

fun item_key :: "'v activity_item \<Rightarrow> string option" where
  "item_key (CastItem k t ts l r) = k"
| "item_key _ = None"

subsection \<open>Effects: exceptions and traces\<close>

text \<open>
  What a JavaScript exception or a rejected promise carries. Only the kind matters here.
\<close>

datatype js_error = TypeError | SecurityError | NetworkError | SyntaxError | OtherError string

text \<open>Opaque handles for DOM elements, canvases and blobs.\<close>

datatype element = Element nat
datatype canvas = Canvas nat
datatype blob = Blob nat

text \<open>The option objects passed to the three rasterisation libraries.\<close>

record raster_options =
  opt_background :: string
  opt_width :: "nat option"
  opt_height :: "nat option"
  opt_scale :: "nat option"
  opt_useCORS :: "bool option"
  opt_allowTaint :: "bool option"
  opt_logging :: "bool option"
  opt_quality :: "nat option"

text \<open>
  The observable actions of the application: console output, alerts, and every call that
  leaves the application code (libraries, DOM, network, the mini app SDK).
\<close>

datatype event =
    ConsoleLog string
  | ConsoleWarn string
  | ConsoleError string
  | Alert string
  | QuerySelector element string
  | Html2canvas element raster_options
  | CanvasToBlob canvas string
  | HtmlToImageToBlob element raster_options
  | DomToImageToBlob element raster_options
  | ReadAsDataURL blob
  | Fetch string "(string \<times> string) list"
  | ResponseJson
  | ResponseText
  | ComposeCast string "string list"

text \<open>
  A computation yields either a thrown error (\<open>Inl\<close>) or a value (\<open>Inr\<close>),
  together with the events it performed, in order. \<open>bind_io\<close> is sequencing
  (\<^verbatim>\<open>await\<close> of one call after another): an error skips the rest. \<open>try_catch\<close>
  is \<^verbatim>\<open>try { ... } catch (e) { ... }\<close>.
\<close>

type_synonym 'a io = "(js_error + 'a) \<times> event list"

definition ret :: "'a \<Rightarrow> 'a io" where
  "ret a = (Inr a, [])"

definition throw :: "js_error \<Rightarrow> 'a io" where
  "throw e = (Inl e, [])"

definition emit :: "event \<Rightarrow> unit io" where
  "emit ev = (Inr (), [ev])"

definition call :: "event \<Rightarrow> js_error + 'a \<Rightarrow> 'a io" where
  "call ev outcome = (outcome, [ev])"

definition bind_io :: "'a io \<Rightarrow> ('a \<Rightarrow> 'b io) \<Rightarrow> 'b io" where
  "bind_io m f =
     (case m of
        (Inl e, t) \<Rightarrow> (Inl e, t)
      | (Inr a, t) \<Rightarrow> (case f a of (r, t') \<Rightarrow> (r, t @ t')))"

definition try_catch :: "'a io \<Rightarrow> (js_error \<Rightarrow> 'a io) \<Rightarrow> 'a io" where
  "try_catch m handler =
     (case m of
        (Inl e, t) \<Rightarrow> (case handler e of (r, t') \<Rightarrow> (r, t @ t'))
      | (Inr a, t) \<Rightarrow> (Inr a, t))"

subsection \<open>More JavaScript primitives\<close>

text \<open>A template literal prints an undefined value as \<open>undefined\<close>.\<close>

definition template :: "string option \<Rightarrow> string" where
  "template v = (case v of None \<Rightarrow> ''undefined'' | Some s \<Rightarrow> s)"

text \<open>\<^verbatim>\<open>String.prototype.split\<close> on a one-character separator, and an array read.\<close>

fun js_split :: "char \<Rightarrow> string \<Rightarrow> string list" where
  "js_split sep [] = [[]]"
| "js_split sep (c # cs) =
     (if c = sep then [] # js_split sep cs
      else (case js_split sep cs of [] \<Rightarrow> [[c]] | p # ps \<Rightarrow> (c # p) # ps))"

definition at_index :: "'a list \<Rightarrow> nat \<Rightarrow> 'a option" where
  "at_index xs i = (if i < length xs then Some (xs ! i) else None)"

text \<open>Decimal printing of a non-negative integer, as a template literal does.\<close>

fun string_of_nat :: "nat \<Rightarrow> string" where
  "string_of_nat n =
     (if n < 10 then [char_of (48 + n)]
      else string_of_nat (n div 10) @ [char_of (48 + n mod 10)])"

declare string_of_nat.simps [simp del]

text \<open>The nullish coalescing operator \<^verbatim>\<open>??\<close>, between optional values and with a final default.\<close>

definition coalesce :: "'a option \<Rightarrow> 'a option \<Rightarrow> 'a option" where
  "coalesce a b = (case a of None \<Rightarrow> b | Some x \<Rightarrow> Some x)"

definition or_default :: "'a option \<Rightarrow> 'a \<Rightarrow> 'a" where
  "or_default a d = (case a of None \<Rightarrow> d | Some x \<Rightarrow> x)"

text \<open>The operator \<^verbatim>\<open>||\<close> on optional strings: the left operand when it is truthy.\<close>

definition or_else :: "string option \<Rightarrow> string option \<Rightarrow> string option" where
  "or_else a b = (if truthy a then a else b)"

text \<open>\<^verbatim>\<open>x || 0\<close> on a number: \<open>0\<close> is the only falsy integer.\<close>

definition or_zero :: "int \<Rightarrow> int" where
  "or_zero x = (if x = 0 then 0 else x)"

text \<open>
  The result of adding numbers. A count read from a response is an integer that a double
  holds exactly; a sum is the exact sum rounded to the nearest double (53 significant
  bits, ties to the even significand) and an infinity beyond the largest double.
\<close>

datatype js_number = Number int | PosInf | NegInf | NaN

fun bit_length :: "nat \<Rightarrow> nat" where
  "bit_length n = (if n = 0 then 0 else Suc (bit_length (n div 2)))"

declare bit_length.simps [simp del]

definition round_double :: "int \<Rightarrow> js_number" where
  "round_double x =
     (let a = nat \<bar>x\<bar>
      in if a < 2 ^ 53 then Number x
         else
           (let e = bit_length a - 53;
                q = a div 2 ^ e;
                r = a mod 2 ^ e;
                q' = (if 2 ^ e < 2 * r \<or> (2 * r = 2 ^ e \<and> odd q) then q + 1 else q);
                m = q' * 2 ^ e
            in if 2 ^ 1024 \<le> m then (if x < 0 then NegInf else PosInf)
               else Number (sgn x * int m)))"

fun js_add :: "js_number \<Rightarrow> js_number \<Rightarrow> js_number" where
  "js_add (Number a) (Number b) = round_double (a + b)"
| "js_add NaN y = NaN"
| "js_add x NaN = NaN"
| "js_add PosInf NegInf = NaN"
| "js_add NegInf PosInf = NaN"
| "js_add PosInf y = PosInf"
| "js_add x PosInf = PosInf"
| "js_add NegInf y = NegInf"
| "js_add x NegInf = NegInf"

text \<open>
  A value read from a parsed JSON body where a string is expected, and what
  \<^verbatim>\<open>if (value)\<close> makes of it.
\<close>

datatype js_value = JUndefined | JNull | JString string

fun js_truthy :: "js_value \<Rightarrow> bool" where
  "js_truthy (JString s) = (s \<noteq> [])"
| "js_truthy _ = False"

subsection \<open>The environment of the application\<close>

text \<open>
  A \<^verbatim>\<open>Response\<close> of \<^verbatim>\<open>fetch\<close>: \<^verbatim>\<open>json()\<close> and \<^verbatim>\<open>text()\<close> return promises that
  may reject; a body that parses to \<^verbatim>\<open>null\<close> is \<open>None\<close> (reading a property of it
  throws a \<^verbatim>\<open>TypeError\<close>), any other body is read through its optional properties.
\<close>

record 'b response =
  resp_ok :: bool
  resp_status :: nat
  resp_json :: "js_error + 'b option"
  resp_text :: "js_error + string"

record upload_body =
  secure_url :: js_value

record neynar_address =
  addr_city :: "string option"
  addr_country :: "string option"

text \<open>
  A user object of the Neynar bulk endpoint. Optional chains are flattened: the field
  \<open>j_bio_text\<close> is \<^verbatim>\<open>u.profile?.bio?.text\<close>, \<open>j_location_address\<close> is
  \<^verbatim>\<open>u.profile?.location?.address\<close>, \<open>j_primary_eth_address\<close> is
  \<^verbatim>\<open>u.verified_addresses?.primary?.eth_address\<close>, \<open>j_eth_addresses\<close> is
  \<^verbatim>\<open>u.verified_addresses?.eth_addresses\<close>, and \<open>j_neynar_user_score\<close> is
  \<^verbatim>\<open>u.experimental?.neynar_user_score\<close> when its \<^verbatim>\<open>typeof\<close> is \<^verbatim>\<open>"number"\<close>.
\<close>

record neynar_user =
  j_username :: "string option"
  j_display_name :: "string option"
  j_pfp_url :: "string option"
  j_follower_count :: "int option"
  j_following_count :: "int option"
  j_bio_text :: "string option"
  j_location_address :: "neynar_address option"
  j_primary_eth_address :: "string option"
  j_eth_addresses :: "string list option"
  j_custody_address :: "string option"
  j_neynar_user_score :: "rat option"

record user_body =
  j_users :: "neynar_user list option"

text \<open>A cast of the casts endpoint, with the candidate places of the reaction counts.\<close>

record 'v reactions =
  r_likes_count :: "'v option"
  r_likes :: "'v option"
  r_recasts_count :: "'v option"
  r_recasts :: "'v option"

record 'v raw_cast =
  j_hash :: "string option"
  j_text :: "string option"
  j_timestamp :: "string option"
  j_reactions :: "'v reactions option"
  j_like_count :: "'v option"
  j_likes :: "'v option"
  j_recast_count :: "'v option"
  j_recasts :: "'v option"

text \<open>An entry of the \<open>casts\<close> array that is \<^verbatim>\<open>null\<close> is \<open>None\<close>.\<close>

record 'v casts_result =
  j_casts :: "'v raw_cast option list option"
  j_total :: "int option"

record 'v casts_body =
  j_result :: "'v casts_result option"

text \<open>The type \<^verbatim>\<open>DashboardUser\<close> of \<^verbatim>\<open>types.ts\<close>.\<close>

record DashboardUser =
  fid :: nat
  username :: string
  displayName :: string
  avatarUrl :: "string option"
  primaryAddress :: "string option"
  followersCount :: "int option"
  followingCount :: "int option"
  castsCount :: "int option"
  reactionsCount :: "js_number option"
  location :: "string option"
  bio :: "string option"
  neynarScore :: "rat option"
  dateOfBirth :: "string option"

text \<open>
  Everything outside the application code: build-time configuration, the DOM, the three
  rasterisation libraries, \<^verbatim>\<open>FileReader\<close>, \<^verbatim>\<open>fetch\<close> (one field per endpoint, by
  the type of the body), the clock and the mini app SDK. \<open>canvas_toBlob\<close> is \<open>Inl\<close>
  when \<^verbatim>\<open>canvas.toBlob\<close> throws, and otherwise holds the argument of its callback.
  \<open>shareText\<close> is the text template of \<^verbatim>\<open>handleShare\<close>, whose wording is not modelled.
\<close>

record world =
  MINIAPP_URL :: string
  NEYNAR_API_KEY :: "string option"
  CLOUDINARY_CLOUD_NAME :: "string option"
  CLOUDINARY_UPLOAD_PRESET :: "string option"
  cardRef_current :: "element option"
  querySelector :: "element \<Rightarrow> string \<Rightarrow> element option"
  html2canvas :: "element \<Rightarrow> raster_options \<Rightarrow> js_error + canvas"
  canvas_toBlob :: "canvas \<Rightarrow> js_error + blob option"
  htmlToImage_toBlob :: "element \<Rightarrow> raster_options \<Rightarrow> js_error + blob option"
  domtoimage_toBlob :: "element \<Rightarrow> raster_options \<Rightarrow> js_error + blob option"
  readAsDataURL :: "blob \<Rightarrow> js_error + string"
  fetch_upload :: "string \<Rightarrow> (string \<times> string) list \<Rightarrow> js_error + upload_body response"
  fetch_user :: "string \<Rightarrow> js_error + user_body response"
  fetch_casts :: "string \<Rightarrow> js_error + int casts_body response"
  date_now :: nat
  shareText :: "DashboardUser option \<Rightarrow> string"
  composeCast :: "string \<Rightarrow> string list \<Rightarrow> js_error + unit"

subsection \<open>App: rasterising the card\<close>

definition html2canvas_options :: raster_options where
  "html2canvas_options =
     \<lparr>opt_background = ''#020617'', opt_width = None, opt_height = None,
      opt_scale = Some 2, opt_useCORS = Some True, opt_allowTaint = Some False,
      opt_logging = Some False, opt_quality = None\<rparr>"

definition htmlToImage_options :: raster_options where
  "htmlToImage_options =
     \<lparr>opt_background = ''#020617'', opt_width = Some 424, opt_height = Some 695,
      opt_scale = None, opt_useCORS = None, opt_allowTaint = None,
      opt_logging = None, opt_quality = None\<rparr>"

definition domtoimage_options :: raster_options where
  "domtoimage_options =
     \<lparr>opt_background = ''#020617'', opt_width = Some 424, opt_height = Some 695,
      opt_scale = None, opt_useCORS = None, opt_allowTaint = None,
      opt_logging = None, opt_quality = Some 1\<rparr>"

definition fallback_options :: raster_options where
  "fallback_options =
     \<lparr>opt_background = ''#020617'', opt_width = Some 424, opt_height = Some 695,
      opt_scale = Some 2, opt_useCORS = Some True, opt_allowTaint = Some False,
      opt_logging = Some False, opt_quality = None\<rparr>"

text \<open>
  \<^verbatim>\<open>new Promise((resolve) => { canvas.toBlob(resolve, 'image/png', 1.0); })\<close>: the
  promise settles with the argument of the callback, and rejects when \<^verbatim>\<open>toBlob\<close>
  throws inside the executor.
\<close>

definition canvasBlobPromise :: "world \<Rightarrow> canvas \<Rightarrow> blob option io" where
  "canvasBlobPromise w c = call (CanvasToBlob c ''image/png'') (canvas_toBlob w c)"

text \<open>
  The body of the \<^verbatim>\<open>try\<close> block of \<^verbatim>\<open>generatePngBlob\<close>. Its value is what the
  \<^verbatim>\<open>return\<close> statement hands back: in the \<^verbatim>\<open>html-to-image\<close> and \<^verbatim>\<open>dom-to-image\<close>
  branches an awaited value (\<^verbatim>\<open>return await ...\<close>), in the \<^verbatim>\<open>html2canvas\<close> and default
  branches a promise that has not been awaited (\<^verbatim>\<open>return new Promise(...)\<close>). The first
  argument is the constant \<^verbatim>\<open>PNG_METHOD\<close>.
\<close>

definition generatePngBlob_try :: "world \<Rightarrow> string \<Rightarrow> element \<Rightarrow> (blob option io) io" where
  "generatePngBlob_try w PNG_METHOD element =
     (if PNG_METHOD = ''html2canvas'' then
        bind_io (call (Html2canvas element html2canvas_options)
                   (html2canvas w element html2canvas_options))
          (\<lambda>canvas. ret (canvasBlobPromise w canvas))
      else if PNG_METHOD = ''html-to-image'' then
        bind_io (call (HtmlToImageToBlob element htmlToImage_options)
                   (htmlToImage_toBlob w element htmlToImage_options))
          (\<lambda>b. ret (ret b))
      else if PNG_METHOD = ''dom-to-image'' then
        bind_io (call (DomToImageToBlob element domtoimage_options)
                   (domtoimage_toBlob w element domtoimage_options))
          (\<lambda>b. ret (ret b))
      else
        bind_io (emit (ConsoleWarn (''Unknown PNG method: '' @ PNG_METHOD
                                      @ '', falling back to html2canvas'')))
          (\<lambda>_. bind_io (call (Html2canvas element fallback_options)
                            (html2canvas w element fallback_options))
                  (\<lambda>fallbackCanvas. ret (canvasBlobPromise w fallbackCanvas))))"

text \<open>
  \<^verbatim>\<open>generatePngBlob\<close>: the \<^verbatim>\<open>catch\<close> clause handles what the \<^verbatim>\<open>try\<close> block throws;
  the promise of the function then takes the outcome of the value returned. \<open>Inl\<close> in
  the result is a rejection that reaches the caller.
\<close>

definition generatePngBlob :: "world \<Rightarrow> string \<Rightarrow> element \<Rightarrow> blob option io" where
  "generatePngBlob w PNG_METHOD element =
     bind_io
       (try_catch (generatePngBlob_try w PNG_METHOD element)
          (\<lambda>error. bind_io (emit (ConsoleError (''Error generating PNG with '' @ PNG_METHOD @ '':'')))
                      (\<lambda>_. ret (ret None))))
       (\<lambda>returned. returned)"

subsection \<open>App: uploading the card to Cloudinary\<close>

definition uploadUrl :: "world \<Rightarrow> string" where
  "uploadUrl w =
     ''https://api.cloudinary.com/v1_1/'' @ template (CLOUDINARY_CLOUD_NAME w) @ ''/image/upload''"

definition uploadForm :: "world \<Rightarrow> string \<Rightarrow> (string \<times> string) list" where
  "uploadForm w base64Data =
     (let base64Image = at_index (js_split (CHR '','') base64Data) 1
      in [(''file'', ''data:image/png;base64,'' @ template base64Image),
          (''upload_preset'', template (CLOUDINARY_UPLOAD_PRESET w)),
          (''public_id'', ''farcaster-id-card-share-'' @ string_of_nat (date_now w)),
          (''folder'', ''farcaster-cards'')])"

text \<open>Lines 120 to 128: what is made of the response of the upload request.\<close>

definition uploadResult :: "upload_body response \<Rightarrow> js_value io" where
  "uploadResult uploadResponse =
     (if resp_ok uploadResponse then
        bind_io (call ResponseJson (resp_json uploadResponse))
          (\<lambda>uploadData.
             bind_io (emit (ConsoleLog ''Cloudinary upload success:''))
               (\<lambda>_. case uploadData of
                        None \<Rightarrow> throw TypeError
                      | Some d \<Rightarrow> ret (secure_url d)))
      else
        bind_io (call ResponseText (resp_text uploadResponse))
          (\<lambda>errorText.
             bind_io (emit (ConsoleError ''Cloudinary upload failed:''))
               (\<lambda>_. ret JNull)))"

text \<open>Lines 83 to 128: the body of the \<^verbatim>\<open>try\<close> block of \<^verbatim>\<open>uploadToCloudinary\<close>.\<close>

definition uploadToCloudinary_try :: "world \<Rightarrow> string \<Rightarrow> element \<Rightarrow> js_value io" where
  "uploadToCloudinary_try w PNG_METHOD element =
     bind_io (call (QuerySelector element ''.fc-idcard'')
                (Inr (querySelector w element ''.fc-idcard'')))
       (\<lambda>found. case found of
          None \<Rightarrow> bind_io (emit (ConsoleWarn ''Card element not found'')) (\<lambda>_. ret JNull)
        | Some cardElement \<Rightarrow>
            bind_io (generatePngBlob w PNG_METHOD cardElement)
              (\<lambda>generated. case generated of
                 None \<Rightarrow> ret JNull
               | Some blob \<Rightarrow>
                   bind_io (call (ReadAsDataURL blob) (readAsDataURL w blob))
                     (\<lambda>base64Data.
                        bind_io (call (Fetch (uploadUrl w) (uploadForm w base64Data))
                                   (fetch_upload w (uploadUrl w) (uploadForm w base64Data)))
                          uploadResult)))"

definition uploadToCloudinary :: "world \<Rightarrow> string \<Rightarrow> element \<Rightarrow> js_value io" where
  "uploadToCloudinary w PNG_METHOD element =
     (if \<not> truthy (CLOUDINARY_CLOUD_NAME w) \<or> \<not> truthy (CLOUDINARY_UPLOAD_PRESET w) then
        bind_io (emit (ConsoleWarn ''Cloudinary configuration missing'')) (\<lambda>_. ret JNull)
      else
        try_catch (uploadToCloudinary_try w PNG_METHOD element)
          (\<lambda>error. bind_io (emit (ConsoleError ''Error uploading to Cloudinary:''))
                      (\<lambda>_. ret JNull)))"

subsection \<open>App: the state of the component\<close>

record app_state =
  user :: "DashboardUser option"
  recentCasts :: "int recent_cast list option"
  error :: "string option"
  loading :: bool
  sharing :: bool

subsection \<open>App: sharing the card\<close>

text \<open>
  Lines 372 to 392 of \<^verbatim>\<open>handleShare\<close>: the embeds of the cast. Without a card element,
  or when the upload gives no usable URL, the cast embeds the mini app URL alone.
\<close>

definition shareEmbeds :: "world \<Rightarrow> string \<Rightarrow> app_state \<Rightarrow> string list io" where
  "shareEmbeds w PNG_METHOD s =
     (case cardRef_current w of
        None \<Rightarrow> ret [MINIAPP_URL w]
      | Some current \<Rightarrow>
          try_catch
            (bind_io (emit (ConsoleLog ''Generating card image for share...''))
               (\<lambda>_. bind_io (uploadToCloudinary w PNG_METHOD current)
                  (\<lambda>cloudinaryUrl.
                     (case cloudinaryUrl of
                        JString cardImageUrl \<Rightarrow>
                          if js_truthy cloudinaryUrl then
                            bind_io (emit (ConsoleLog ''Card image uploaded to Cloudinary successfully:''))
                              (\<lambda>_. ret (case user s of
                                            Some u \<Rightarrow> [cardImageUrl, MINIAPP_URL w, ''@'' @ username u]
                                          | None \<Rightarrow> [cardImageUrl, MINIAPP_URL w]))
                          else
                            bind_io (emit (ConsoleWarn ''Failed to upload card image to Cloudinary''))
                              (\<lambda>_. ret [MINIAPP_URL w])
                      | _ \<Rightarrow>
                          bind_io (emit (ConsoleWarn ''Failed to upload card image to Cloudinary''))
                            (\<lambda>_. ret [MINIAPP_URL w])))))
            (\<lambda>imageError.
               bind_io (emit (ConsoleError ''Error generating/uploading card image:''))
                 (\<lambda>_. ret [MINIAPP_URL w])))"

text \<open>
  The bytes that end the string literal of line 442 after its last space, as the file
  stores them (an emoji).
\<close>

definition alert_suffix :: string where
  "alert_suffix =
     [CHR 0xC3, CHR 0xB0, CHR 0xC5, CHR 0xB8, CHR 0xC5, CHR 0xBD, CHR 0xE2, CHR 0x80, CHR 0xB0]"

text \<open>Lines 370 to 446: the \<^verbatim>\<open>try\<close> block of \<^verbatim>\<open>handleShare\<close> with its \<^verbatim>\<open>catch\<close> clause.\<close>

definition shareCast :: "world \<Rightarrow> string \<Rightarrow> app_state \<Rightarrow> unit io" where
  "shareCast w PNG_METHOD s =
     try_catch
       (bind_io (shareEmbeds w PNG_METHOD s)
          (\<lambda>embeds.
             bind_io (emit (ConsoleLog ''Composing cast with:''))
               (\<lambda>_. bind_io (call (ComposeCast (shareText w (user s)) embeds)
                                 (composeCast w (shareText w (user s)) embeds))
                  (\<lambda>_. bind_io (emit (ConsoleLog ''Cast shared successfully!''))
                     (\<lambda>_. emit (Alert (''Cast shared successfully! '' @ alert_suffix)))))))
       (\<lambda>e. bind_io (emit (ConsoleError ''Failed to share cast:''))
               (\<lambda>_. emit (Alert ''Failed to share cast. Please try again.'')))"

text \<open>
  The guard and \<^verbatim>\<open>setSharing(true)\<close> run before the first \<^verbatim>\<open>await\<close>:
  \<open>share_begin\<close> is \<open>None\<close> when the handler returns at the guard. \<open>share_end\<close> is the
  \<^verbatim>\<open>finally\<close> clause.
\<close>

definition share_begin :: "app_state \<Rightarrow> app_state option" where
  "share_begin s = (if sharing s then None else Some (s\<lparr>sharing := True\<rparr>))"

definition share_end :: "app_state \<Rightarrow> app_state" where
  "share_end s = s\<lparr>sharing := False\<rparr>"

text \<open>
  One invocation of the handler, run to its end from the state of the render that
  created it.
\<close>

definition handleShare :: "world \<Rightarrow> string \<Rightarrow> app_state \<Rightarrow> app_state \<times> event list" where
  "handleShare w PNG_METHOD s =
     (case share_begin s of
        None \<Rightarrow> (s, [])
      | Some s1 \<Rightarrow> (share_end s1, snd (shareCast w PNG_METHOD s1)))"

text \<open>
  The share button of the dashboard: \<^verbatim>\<open>disabled={sharing}\<close>, the property defaulting
  to \<^verbatim>\<open>false\<close>, and the label shown.
\<close>

record button =
  disabled :: bool
  label :: string

definition shareButton :: "bool option \<Rightarrow> button" where
  "shareButton sharing_prop =
     (let is_sharing = or_default sharing_prop False
      in \<lparr>disabled = is_sharing,
          label = (if is_sharing then ''Sharing...'' else ''Share ID to Farcaster'')\<rparr>)"



subsection \<open>App: loading the profile and the casts\<close>

definition first_user :: "user_body \<Rightarrow> neynar_user option" where
  "first_user data =
     (case j_users data of None \<Rightarrow> None | Some us \<Rightarrow> at_index us 0)"

text \<open>Lines 186 to 195: the location line and the primary address of a user object.\<close>

definition userLocation :: "neynar_user \<Rightarrow> string option" where
  "userLocation u =
     (let city = Option.bind (j_location_address u) addr_city;
          country = Option.bind (j_location_address u) addr_country
      in if truthy city \<and> truthy country then Some (template city @ '', '' @ template country)
         else or_else country None)"

definition primaryEth :: "neynar_user \<Rightarrow> string option" where
  "primaryEth u =
     or_else (j_primary_eth_address u)
       (or_else (Option.bind (j_eth_addresses u) (\<lambda>as. at_index as 0))
          (j_custody_address u))"

text \<open>Lines 172 to 210: the update function handed to \<^verbatim>\<open>setUser\<close>.\<close>

definition mergeUser :: "nat \<Rightarrow> neynar_user \<Rightarrow> DashboardUser option \<Rightarrow> DashboardUser" where
  "mergeUser fid_arg u prev =
     (let base = (case prev of
                    Some p \<Rightarrow> p
                  | None \<Rightarrow>
                      \<lparr>fid = fid_arg,
                       username = or_default (j_username u) (''user-'' @ string_of_nat fid_arg),
                       displayName = or_default (coalesce (j_display_name u) (j_username u))
                                       (''FID '' @ string_of_nat fid_arg),
                       avatarUrl = None, primaryAddress = None, followersCount = None,
                       followingCount = None, castsCount = None, reactionsCount = None,
                       location = None, bio = None, neynarScore = None, dateOfBirth = None\<rparr>)
      in base\<lparr>avatarUrl := coalesce (j_pfp_url u) (avatarUrl base),
              followersCount := coalesce (j_follower_count u) (followersCount base),
              followingCount := coalesce (j_following_count u) (followingCount base),
              bio := coalesce (j_bio_text u) (bio base),
              location := coalesce (userLocation u) (location base),
              primaryAddress := coalesce (primaryEth u) (primaryAddress base),
              neynarScore := (case j_neynar_user_score u of
                                Some x \<Rightarrow> Some x
                              | None \<Rightarrow> neynarScore base)\<rparr>)"

definition userUrl :: "nat \<Rightarrow> string" where
  "userUrl fid_arg =
     ''https://api.neynar.com/v2/farcaster/user/bulk?fids='' @ string_of_nat fid_arg
       @ ''&viewer_fid='' @ string_of_nat fid_arg"

definition castsUrl :: "nat \<Rightarrow> string" where
  "castsUrl fid_arg =
     ''https://api.neynar.com/v2/farcaster/casts?fid='' @ string_of_nat fid_arg
       @ ''&limit=5&author_fid='' @ string_of_nat fid_arg"

text \<open>
  Lines 161 to 212, the first request. The result pairs the error with which the function
  rejects, if any, with the state reached.
\<close>

definition loadUser :: "world \<Rightarrow> nat \<Rightarrow> app_state \<Rightarrow> js_error option \<times> app_state" where
  "loadUser w fid_arg s =
     (case fetch_user w (userUrl fid_arg) of
        Inl e \<Rightarrow> (Some e, s)
      | Inr userRes \<Rightarrow>
          if \<not> resp_ok userRes then
            (case resp_text userRes of Inl e \<Rightarrow> (Some e, s) | Inr txt \<Rightarrow> (None, s))
          else
            (case resp_json userRes of
               Inl e \<Rightarrow> (Some e, s)
             | Inr None \<Rightarrow> (Some TypeError, s)
             | Inr (Some data) \<Rightarrow>
                 (case first_user data of
                    None \<Rightarrow> (None, s)
                  | Some u \<Rightarrow> (None, s\<lparr>user := Some (mergeUser fid_arg u (user s))\<rparr>))))"

text \<open>Lines 226 to 246: one cast of the response as a \<^verbatim>\<open>RecentCast\<close>.\<close>

definition castLikes :: "('v::zero) raw_cast \<Rightarrow> 'v" where
  "castLikes c =
     or_default
       (coalesce (Option.bind (j_reactions c) r_likes_count)
          (coalesce (Option.bind (j_reactions c) r_likes)
             (coalesce (j_like_count c) (j_likes c))))
       0"

definition castRecasts :: "('v::zero) raw_cast \<Rightarrow> 'v" where
  "castRecasts c =
     or_default
       (coalesce (Option.bind (j_reactions c) r_recasts_count)
          (coalesce (Option.bind (j_reactions c) r_recasts)
             (coalesce (j_recast_count c) (j_recasts c))))
       0"

definition mapCast :: "('v::zero) raw_cast \<Rightarrow> 'v recent_cast" where
  "mapCast c =
     \<lparr>rc_hash = j_hash c, rc_text = or_default (j_text c) [],
      rc_timestamp = j_timestamp c, rc_likes = castLikes c, rc_recasts = castRecasts c\<rparr>"

text \<open>\<^verbatim>\<open>Array.prototype.map\<close> with that callback: a \<^verbatim>\<open>null\<close> entry makes it throw.\<close>

fun mapCasts :: "('v::zero) raw_cast option list \<Rightarrow> js_error + 'v recent_cast list" where
  "mapCasts [] = Inr []"
| "mapCasts (None # cs) = Inl TypeError"
| "mapCasts (Some c # cs) =
     (case mapCasts cs of Inl e \<Rightarrow> Inl e | Inr rs \<Rightarrow> Inr (mapCast c # rs))"

text \<open>\<^verbatim>\<open>castsData.result?.casts?.map(...) ?? []\<close>\<close>

definition processCasts :: "('v::zero) casts_body \<Rightarrow> js_error + 'v recent_cast list" where
  "processCasts castsData =
     (case Option.bind (j_result castsData) j_casts of
        None \<Rightarrow> Inr []
      | Some cs \<Rightarrow> mapCasts cs)"

text \<open>Lines 252 to 260: the totals, and the update function handed to \<^verbatim>\<open>setUser\<close>.\<close>

definition totalReactions :: "int recent_cast list \<Rightarrow> js_number" where
  "totalReactions casts =
     fold (\<lambda>cast sum. js_add (js_add sum (Number (or_zero (rc_likes cast))))
                         (Number (or_zero (rc_recasts cast))))
       casts (Number 0)"

definition setCounts :: "int casts_body \<Rightarrow> int recent_cast list \<Rightarrow> DashboardUser option \<Rightarrow> DashboardUser option" where
  "setCounts castsData casts prev =
     (case prev of
        None \<Rightarrow> None
      | Some p \<Rightarrow>
          Some (p\<lparr>castsCount :=
                     Some (or_default
                             (coalesce (Option.bind (j_result castsData) j_total) (castsCount p))
                             (int (length casts))),
                  reactionsCount := Some (totalReactions casts)\<rparr>))"

text \<open>Lines 214 to 261, the second request.\<close>

definition loadCasts :: "world \<Rightarrow> nat \<Rightarrow> app_state \<Rightarrow> js_error option \<times> app_state" where
  "loadCasts w fid_arg s =
     (case fetch_casts w (castsUrl fid_arg) of
        Inl e \<Rightarrow> (Some e, s)
      | Inr castsRes \<Rightarrow>
          if \<not> resp_ok castsRes then
            (case resp_text castsRes of
               Inl e \<Rightarrow> (Some e, s)
             | Inr txt \<Rightarrow> (None, s\<lparr>recentCasts := Some []\<rparr>))
          else
            (case resp_json castsRes of
               Inl e \<Rightarrow> (Some e, s)
             | Inr None \<Rightarrow> (Some TypeError, s)
             | Inr (Some castsData) \<Rightarrow>
                 (case processCasts castsData of
                    Inl e \<Rightarrow> (Some e, s)
                  | Inr casts \<Rightarrow>
                      (None, s\<lparr>recentCasts := Some casts,
                                user := setCounts castsData casts (user s)\<rparr>))))"

definition loadNeynarData :: "world \<Rightarrow> nat \<Rightarrow> bool \<Rightarrow> app_state \<Rightarrow> js_error option \<times> app_state" where
  "loadNeynarData w fid_arg showLoading s =
     (let s1 = (if showLoading then s\<lparr>recentCasts := None\<rparr> else s)
      in if \<not> truthy (NEYNAR_API_KEY w) then (None, s1)
         else (case loadUser w fid_arg s1 of
                 (Some e, s2) \<Rightarrow> (Some e, s2)
               | (None, s2) \<Rightarrow> loadCasts w fid_arg s2))"

subsection \<open>Observations on traces, and a sample environment\<close>

text \<open>The calls into a rasterisation library, and the requests sent with \<^verbatim>\<open>fetch\<close>.\<close>

fun is_raster_call :: "event \<Rightarrow> bool" where
  "is_raster_call (Html2canvas e opts) = True"
| "is_raster_call (CanvasToBlob c mime) = True"
| "is_raster_call (HtmlToImageToBlob e opts) = True"
| "is_raster_call (DomToImageToBlob e opts) = True"
| "is_raster_call _ = False"

fun is_fetch :: "event \<Rightarrow> bool" where
  "is_fetch (Fetch url form) = True"
| "is_fetch _ = False"

text \<open>The name of the outside operation an event calls; console output and alerts call none.\<close>

fun call_kind :: "event \<Rightarrow> string option" where
  "call_kind (QuerySelector e sel) = Some ''querySelector''"
| "call_kind (Html2canvas e opts) = Some ''html2canvas''"
| "call_kind (CanvasToBlob c mime) = Some ''canvas.toBlob''"
| "call_kind (HtmlToImageToBlob e opts) = Some ''htmlToImage.toBlob''"
| "call_kind (DomToImageToBlob e opts) = Some ''domtoimage.toBlob''"
| "call_kind (ReadAsDataURL b) = Some ''readAsDataURL''"
| "call_kind (Fetch url form) = Some ''fetch''"
| "call_kind ResponseJson = Some ''response.json''"
| "call_kind ResponseText = Some ''response.text''"
| "call_kind (ComposeCast t embeds) = Some ''composeCast''"
| "call_kind _ = None"

fun calls_made :: "event list \<Rightarrow> string list" where
  "calls_made [] = []"
| "calls_made (ev # t) =
     (case call_kind ev of None \<Rightarrow> calls_made t | Some k \<Rightarrow> k # calls_made t)"

text \<open>
  The stages of the upload pipeline up to the response of the upload request:
  configuration present, card element found, a blob rasterised, the blob read as a data
  URL, and a response with \<^verbatim>\<open>ok\<close> set. The value is that response when every stage
  succeeds, and \<open>None\<close> as soon as one fails.
\<close>

definition okResponse :: "world \<Rightarrow> string \<Rightarrow> element \<Rightarrow> upload_body response option" where
  "okResponse w PNG_METHOD element =
     (if \<not> truthy (CLOUDINARY_CLOUD_NAME w) \<or> \<not> truthy (CLOUDINARY_UPLOAD_PRESET w) then None
      else
        (case querySelector w element ''.fc-idcard'' of
           None \<Rightarrow> None
         | Some cardElement \<Rightarrow>
             (case fst (generatePngBlob w PNG_METHOD cardElement) of
                Inr (Some blob) \<Rightarrow>
                  (case readAsDataURL w blob of
                     Inr base64Data \<Rightarrow>
                       (case fetch_upload w (uploadUrl w) (uploadForm w base64Data) of
                          Inr uploadResponse \<Rightarrow>
                            if resp_ok uploadResponse then Some uploadResponse else None
                        | Inl e \<Rightarrow> None)
                   | Inl e \<Rightarrow> None)
              | _ \<Rightarrow> None)))"

text \<open>An environment in which every outside operation succeeds.\<close>

definition sample_response :: "upload_body response" where
  "sample_response =
     \<lparr>resp_ok = True, resp_status = 200,
      resp_json = Inr (Some \<lparr>secure_url = JString ''https://res.cloudinary.com/demo/card.png''\<rparr>),
      resp_text = Inr []\<rparr>"

definition sample_cast :: "int raw_cast" where
  "sample_cast =
     \<lparr>j_hash = Some ''0xabc'', j_text = Some ''gm'', j_timestamp = Some ''2024-01-01T00:00:00Z'',
      j_reactions = Some \<lparr>r_likes_count = None, r_likes = Some 7,
                           r_recasts_count = Some 2, r_recasts = Some 9\<rparr>,
      j_like_count = Some 4, j_likes = None, j_recast_count = None, j_recasts = None\<rparr>"

definition sample_user :: DashboardUser where
  "sample_user =
     \<lparr>fid = 12345, username = ''testuser'', displayName = ''Test User'',
      avatarUrl = Some ''https://example.com/avatar.png'', primaryAddress = None,
      followersCount = None, followingCount = None, castsCount = None,
      reactionsCount = Some (Number 1000), location = None, bio = None, neynarScore = None,
      dateOfBirth = None\<rparr>"

definition sample_state :: app_state where
  "sample_state =
     \<lparr>user = Some sample_user, recentCasts = None, error = None, loading = False,
      sharing = False\<rparr>"

definition sample_world :: world where
  "sample_world =
     \<lparr>MINIAPP_URL = ''https://farcaster-id-one.vercel.app'',
      NEYNAR_API_KEY = Some ''key'',
      CLOUDINARY_CLOUD_NAME = Some ''demo'',
      CLOUDINARY_UPLOAD_PRESET = Some ''preset'',
      cardRef_current = Some (Element 0),
      querySelector = (\<lambda>e sel. if sel = ''.fc-idcard'' then Some (Element 1) else None),
      html2canvas = (\<lambda>e opts. Inr (Canvas 0)),
      canvas_toBlob = (\<lambda>c. Inr (Some (Blob 0))),
      htmlToImage_toBlob = (\<lambda>e opts. Inr (Some (Blob 1))),
      domtoimage_toBlob = (\<lambda>e opts. Inr (Some (Blob 2))),
      readAsDataURL = (\<lambda>b. Inr ''data:image/png;base64,AAAA''),
      fetch_upload = (\<lambda>url form. Inr sample_response),
      fetch_user = (\<lambda>url. Inr \<lparr>resp_ok = False, resp_status = 500,
                                   resp_json = Inl SyntaxError, resp_text = Inr []\<rparr>),
      fetch_casts = (\<lambda>url. Inr \<lparr>resp_ok = True, resp_status = 200,
                                   resp_json = Inr (Some \<lparr>j_result =
                                     Some \<lparr>j_casts = Some [Some sample_cast], j_total = None\<rparr>\<rparr>),
                                   resp_text = Inr []\<rparr>),
      date_now = 0,
      shareText = (\<lambda>u. ''Check out this Farcaster ID Card generator!''),
      composeCast = (\<lambda>t embeds. Inr ())\<rparr>"

text \<open>
  Three variations: the body of the upload response does not parse, the upload is
  answered with an error status, and \<^verbatim>\<open>canvas.toBlob\<close> throws.
\<close>

definition unparsed_response :: "upload_body response" where
  "unparsed_response =
     \<lparr>resp_ok = True, resp_status = 200, resp_json = Inl SyntaxError, resp_text = Inr []\<rparr>"

definition unparsed_world :: world where
  "unparsed_world = sample_world\<lparr>fetch_upload := (\<lambda>url form. Inr unparsed_response)\<rparr>"

definition refused_response :: "upload_body response" where
  "refused_response =
     \<lparr>resp_ok = False, resp_status = 400, resp_json = Inl SyntaxError,
      resp_text = Inr ''Upload preset not found''\<rparr>"

definition refused_world :: world where
  "refused_world = sample_world\<lparr>fetch_upload := (\<lambda>url form. Inr refused_response)\<rparr>"

definition throwing_world :: world where
  "throwing_world = sample_world\<lparr>canvas_toBlob := (\<lambda>c. Inl SecurityError)\<rparr>"

text \<open>
  Two more: the casts request answered \<open>ok\<close> with a body that does not parse, and
  answered with two casts.
\<close>

definition unparsed_casts_response :: "int casts_body response" where
  "unparsed_casts_response =
     \<lparr>resp_ok = True, resp_status = 200, resp_json = Inl SyntaxError, resp_text = Inr []\<rparr>"

definition unparsed_casts_world :: world where
  "unparsed_casts_world = sample_world\<lparr>fetch_casts := (\<lambda>url. Inr unparsed_casts_response)\<rparr>"

definition second_cast :: "int raw_cast" where
  "second_cast =
     \<lparr>j_hash = Some ''0xdef'', j_text = None, j_timestamp = Some ''2024-01-02T00:00:00Z'',
      j_reactions = None,
      j_like_count = Some 3, j_likes = Some 8, j_recast_count = None, j_recasts = None\<rparr>"

definition two_casts_body :: "int casts_body" where
  "two_casts_body =
     \<lparr>j_result = Some \<lparr>j_casts = Some [Some sample_cast, Some second_cast],
                        j_total = Some 40\<rparr>\<rparr>"

definition two_casts_response :: "int casts_body response" where
  "two_casts_response =
     \<lparr>resp_ok = True, resp_status = 200, resp_json = Inr (Some two_casts_body),
      resp_text = Inr []\<rparr>"

definition two_casts_world :: world where
  "two_casts_world = sample_world\<lparr>fetch_casts := (\<lambda>url. Inr two_casts_response)\<rparr>"


text \<open>
  The first request lets the loader go on to the casts request: \<^verbatim>\<open>fetch\<close> resolves,
  and then either the response is not \<open>ok\<close> and its text can be read, or it is \<open>ok\<close>
  and its body parses to a value other than \<^verbatim>\<open>null\<close>.
\<close>

definition user_request_settles :: "world \<Rightarrow> nat \<Rightarrow> bool" where
  "user_request_settles w fid_arg =
     (case fetch_user w (userUrl fid_arg) of
        Inl e \<Rightarrow> False
      | Inr userRes \<Rightarrow>
          if resp_ok userRes then
            (case resp_json userRes of Inr (Some data) \<Rightarrow> True | _ \<Rightarrow> False)
          else
            (case resp_text userRes of Inr txt \<Rightarrow> True | Inl e \<Rightarrow> False))"

subsection \<open>The reaction counts as the specification words them\<close>

text \<open>The first value of a list of candidates that is neither \<^verbatim>\<open>null\<close> nor \<^verbatim>\<open>undefined\<close>.\<close>

fun first_non_null :: "'a option list \<Rightarrow> 'a option" where
  "first_non_null [] = None"
| "first_non_null (None # cands) = first_non_null cands"
| "first_non_null (Some v # cands) = Some v"

definition likes_candidates :: "'v raw_cast \<Rightarrow> 'v option list" where
  "likes_candidates c =
     [Option.bind (j_reactions c) r_likes_count, Option.bind (j_reactions c) r_likes,
      j_like_count c, j_likes c]"

definition recasts_candidates :: "'v raw_cast \<Rightarrow> 'v option list" where
  "recasts_candidates c =
     [Option.bind (j_reactions c) r_recasts_count, Option.bind (j_reactions c) r_recasts,
      j_recast_count c, j_recasts c]"

definition picks_first_non_null :: "('v::zero) raw_cast option \<Rightarrow> 'v recent_cast \<Rightarrow> bool" where
  "picks_first_non_null entry cast =
     (case entry of
        None \<Rightarrow> False
      | Some c \<Rightarrow>
          rc_likes cast = (case first_non_null (likes_candidates c) of None \<Rightarrow> 0 | Some v \<Rightarrow> v)
          \<and> rc_recasts cast = (case first_non_null (recasts_candidates c) of None \<Rightarrow> 0 | Some v \<Rightarrow> v))"

text \<open>The entries of the \<open>casts\<close> array of a response body (none when the array is absent).\<close>

definition response_casts :: "'v casts_body \<Rightarrow> 'v raw_cast option list" where
  "response_casts castsData =
     (case Option.bind (j_result castsData) j_casts of None \<Rightarrow> [] | Some cs \<Rightarrow> cs)"

section \<open>Properties\<close>

subsection \<open>Formatting\<close>

lemma slice_first_six: "js_slice a 0 (Some 6) = take 6 a"
  by (simp add: js_slice_def slice_index_def Let_def min_def)

lemma slice_last_four: "js_slice a (- 4) None = drop (length a - 4) a"
proof -
  have "nat (max (int (length a) - 4) 0) = length a - 4"
    by simp
  then show ?thesis
    by (simp add: js_slice_def slice_index_def Let_def)
qed

text \<open>
  C7. For an undefined or empty address \<open>formatAddress\<close> returns \<open>Not connected\<close>; for
  a non-empty address it returns its first six characters, then \<open>...\<close>, then its last
  four characters (the whole address where it is shorter).
\<close>

theorem formatAddress_spec:
  "formatAddress None = ''Not connected''
   \<and> formatAddress (Some []) = ''Not connected''
   \<and> (a \<noteq> [] \<longrightarrow>
        formatAddress (Some a) = take 6 a @ ''...'' @ drop (length a - 4) a)"
  by (simp add: formatAddress_def truthy_def slice_first_six slice_last_four)

theorem formatAddress_spec_witness:
  "formatAddress None = ''Not connected''
   \<and> formatAddress (Some []) = ''Not connected''
   \<and> ''0x1234567890abcdef'' \<noteq> []
   \<and> formatAddress (Some ''0x1234567890abcdef'') = ''0x1234...cdef''"
  using formatAddress_spec [of "''0x1234567890abcdef''"] by simp

subsection \<open>The background cycle\<close>

lemma indexOf_from_range:
  "indexOf_from xs x i = - 1
   \<or> (i \<le> indexOf_from xs x i \<and> indexOf_from xs x i < i + int (length xs))"
  by (induction xs x i rule: indexOf_from.induct) auto

lemma nextIndex_in_range:
  "0 \<le> nextIndex bg \<and> nextIndex bg < int (length backgroundOptions)"
proof -
  have "indexOf backgroundOptions bg = - 1
        \<or> (0 \<le> indexOf backgroundOptions bg
            \<and> indexOf backgroundOptions bg < int (length backgroundOptions))"
    using indexOf_from_range [of backgroundOptions bg 0] by (simp add: indexOf_def)
  then show ?thesis
    by (auto simp: nextIndex_def js_rem_def backgroundOptions_def sgn_if)
qed

lemma change_steps:
  "changeCardBackground ''linear-gradient(135deg, #667eea 0%, #764ba2 100%)''
     = ''linear-gradient(135deg, #f093fb 0%, #f5576c 100%)''"
  "changeCardBackground ''linear-gradient(135deg, #f093fb 0%, #f5576c 100%)''
     = ''linear-gradient(135deg, #4facfe 0%, #00f2fe 100%)''"
  "changeCardBackground ''linear-gradient(135deg, #4facfe 0%, #00f2fe 100%)''
     = ''linear-gradient(135deg, #43e97b 0%, #38f9d7 100%)''"
  "changeCardBackground ''linear-gradient(135deg, #43e97b 0%, #38f9d7 100%)''
     = ''linear-gradient(135deg, #fa709a 0%, #fee140 100%)''"
  "changeCardBackground ''linear-gradient(135deg, #fa709a 0%, #fee140 100%)''
     = ''#020617''"
  "changeCardBackground ''#020617''
     = ''linear-gradient(135deg, #667eea 0%, #764ba2 100%)''"
  by (simp_all add: changeCardBackground_def nextIndex_def indexOf_def js_rem_def
        backgroundOptions_def)

lemma below_six: "(i::nat) < 6 \<Longrightarrow> i = 0 \<or> i = 1 \<or> i = 2 \<or> i = 3 \<or> i = 4 \<or> i = 5"
  by arith

lemma change_nth:
  assumes "i < 6"
  shows "changeCardBackground (backgroundOptions ! i) = backgroundOptions ! ((i + 1) mod 6)"
  using below_six [OF assms] by (elim disjE) (simp_all add: backgroundOptions_def change_steps)

lemma funpow_six: "(f ^^ 6) x = f (f (f (f (f (f x)))))"
  by (simp add: numeral_eq_Suc)

lemma change_six_times:
  assumes "bg \<in> set backgroundOptions"
  shows "(changeCardBackground ^^ 6) bg = bg"
proof -
  from assms have
    "bg = ''linear-gradient(135deg, #667eea 0%, #764ba2 100%)''
     \<or> bg = ''linear-gradient(135deg, #f093fb 0%, #f5576c 100%)''
     \<or> bg = ''linear-gradient(135deg, #4facfe 0%, #00f2fe 100%)''
     \<or> bg = ''linear-gradient(135deg, #43e97b 0%, #38f9d7 100%)''
     \<or> bg = ''linear-gradient(135deg, #fa709a 0%, #fee140 100%)''
     \<or> bg = ''#020617''"
    by (simp add: backgroundOptions_def)
  then show ?thesis
    by (elim disjE) (simp_all only: funpow_six change_steps)
qed

text \<open>
  C6. The list has six entries; \<open>changeCardBackground\<close> takes entry \<open>i\<close> to entry
  \<open>i + 1\<close>, and the last entry to the first; from any entry of the list, six applications
  give the entry back.
\<close>

theorem changeCardBackground_cycle:
  "length backgroundOptions = 6
   \<and> (i < 6 \<longrightarrow>
        changeCardBackground (backgroundOptions ! i) = backgroundOptions ! ((i + 1) mod 6))
   \<and> (bg \<in> set backgroundOptions \<longrightarrow> (changeCardBackground ^^ 6) bg = bg)"
  using change_nth [of i] change_six_times [of bg] by (simp add: backgroundOptions_def)

theorem changeCardBackground_cycle_witness:
  "(5::nat) < 6
   \<and> changeCardBackground (backgroundOptions ! 5) = backgroundOptions ! 0
   \<and> ''#020617'' \<in> set backgroundOptions
   \<and> (changeCardBackground ^^ 6) ''#020617'' = ''#020617''"
proof -
  have m: "''#020617'' \<in> set backgroundOptions"
    by (simp add: backgroundOptions_def)
  from changeCardBackground_cycle [of 5 "''#020617''"] m show ?thesis
    by simp
qed

subsection \<open>The Recent Activity list\<close>

text \<open>
  C9. The list shows one loading item when \<open>recentCasts\<close> is undefined, the two fixed
  placeholder items when it is empty, and one item per cast, keyed by the hash of the
  cast, when it is defined and not empty; the loading state and the state with casts
  exclude each other.
\<close>

theorem activityList_states:
  "activityList None = [LoadingItem :: 'v activity_item]
   \<and> activityList (Some []) = [NoCastsItem :: 'v activity_item, SampleItem]
   \<and> ((cs :: 'v recent_cast list) \<noteq> [] \<longrightarrow>
        activityList (Some cs) = map castItem cs
        \<and> map item_key (activityList (Some cs)) = map rc_hash cs)
   \<and> (isLoadingCasts (rcs :: 'v recent_cast list option) \<longleftrightarrow> rcs = None)
   \<and> (hasRealActivity rcs \<longleftrightarrow> (\<exists>ys. rcs = Some ys \<and> ys \<noteq> []))
   \<and> \<not> (isLoadingCasts rcs \<and> hasRealActivity rcs)"
  by (auto simp: activityList_def isLoadingCasts_def hasRealActivity_def castItem_def
        split: option.splits)

theorem activityList_states_witness:
  "[\<lparr>rc_hash = Some ''0xabc'', rc_text = ''gm'', rc_timestamp = None,
      rc_likes = 7, rc_recasts = 2\<rparr>] \<noteq> ([] :: int recent_cast list)
   \<and> activityList (Some [\<lparr>rc_hash = Some ''0xabc'', rc_text = ''gm'', rc_timestamp = None,
                            rc_likes = 7, rc_recasts = 2\<rparr>])
       = [CastItem (Some ''0xabc'') ''gm'' None (7::int) 2]
   \<and> map item_key (activityList (Some [\<lparr>rc_hash = Some ''0xabc'', rc_text = ''gm'',
         rc_timestamp = None, rc_likes = (7::int), rc_recasts = 2\<rparr>])) = [Some ''0xabc'']"
  using activityList_states
    [where cs = "[\<lparr>rc_hash = Some ''0xabc'', rc_text = ''gm'', rc_timestamp = None,
                    rc_likes = (7::int), rc_recasts = 2\<rparr>]"
       and rcs = None]
  by (simp add: castItem_def)

subsection \<open>Sequencing, and the rasterisation step\<close>

lemma fst_bind_io:
  "fst (bind_io m f) = (case fst m of Inl e \<Rightarrow> Inl e | Inr a \<Rightarrow> fst (f a))"
  by (cases m) (simp add: bind_io_def split: sum.splits prod.splits)

lemma snd_bind_io:
  "snd (bind_io m f) = (case fst m of Inl e \<Rightarrow> snd m | Inr a \<Rightarrow> snd m @ snd (f a))"
  by (cases m) (simp add: bind_io_def split: sum.splits prod.splits)

lemma fst_try_catch:
  "fst (try_catch m h) = (case fst m of Inl e \<Rightarrow> fst (h e) | Inr a \<Rightarrow> Inr a)"
  by (cases m) (simp add: try_catch_def split: sum.splits prod.splits)

lemma snd_try_catch:
  "snd (try_catch m h) = (case fst m of Inl e \<Rightarrow> snd m @ snd (h e) | Inr a \<Rightarrow> snd m)"
  by (cases m) (simp add: try_catch_def split: sum.splits prod.splits)

lemmas io_simps =
  fst_bind_io snd_bind_io fst_try_catch snd_try_catch ret_def throw_def emit_def call_def

lemmas generate_defs = generatePngBlob_def generatePngBlob_try_def canvasBlobPromise_def

lemma generate_html2canvas:
  "generatePngBlob w ''html2canvas'' el =
     (case html2canvas w el html2canvas_options of
        Inl e \<Rightarrow> (Inr None, [Html2canvas el html2canvas_options,
                               ConsoleError ''Error generating PNG with html2canvas:''])
      | Inr c \<Rightarrow> (canvas_toBlob w c, [Html2canvas el html2canvas_options, CanvasToBlob c ''image/png'']))"
  by (simp add: generate_defs io_simps prod_eq_iff split: sum.splits)

lemma generate_htmlToImage:
  "generatePngBlob w ''html-to-image'' el =
     (case htmlToImage_toBlob w el htmlToImage_options of
        Inl e \<Rightarrow> (Inr None, [HtmlToImageToBlob el htmlToImage_options,
                               ConsoleError ''Error generating PNG with html-to-image:''])
      | Inr b \<Rightarrow> (Inr b, [HtmlToImageToBlob el htmlToImage_options]))"
  by (simp add: generate_defs io_simps prod_eq_iff split: sum.splits)

lemma generate_domtoimage:
  "generatePngBlob w ''dom-to-image'' el =
     (case domtoimage_toBlob w el domtoimage_options of
        Inl e \<Rightarrow> (Inr None, [DomToImageToBlob el domtoimage_options,
                               ConsoleError ''Error generating PNG with dom-to-image:''])
      | Inr b \<Rightarrow> (Inr b, [DomToImageToBlob el domtoimage_options]))"
  by (simp add: generate_defs io_simps prod_eq_iff split: sum.splits)

lemma generate_fallback:
  assumes "m \<noteq> ''html2canvas''" and "m \<noteq> ''html-to-image''" and "m \<noteq> ''dom-to-image''"
  shows "generatePngBlob w m el =
     (case html2canvas w el fallback_options of
        Inl e \<Rightarrow> (Inr None,
                    [ConsoleWarn (''Unknown PNG method: '' @ m @ '', falling back to html2canvas''),
                     Html2canvas el fallback_options,
                     ConsoleError (''Error generating PNG with '' @ m @ '':'')])
      | Inr c \<Rightarrow> (canvas_toBlob w c,
                    [ConsoleWarn (''Unknown PNG method: '' @ m @ '', falling back to html2canvas''),
                     Html2canvas el fallback_options, CanvasToBlob c ''image/png'']))"
  using assms by (simp add: generate_defs io_simps prod_eq_iff split: sum.splits)

text \<open>
  C2. \<open>generatePngBlob\<close> dispatches on \<open>PNG_METHOD\<close>: \<open>html2canvas\<close> calls
  \<open>html2canvas\<close> and turns the canvas into a blob, \<open>html-to-image\<close> calls
  \<open>htmlToImage.toBlob\<close>, \<open>dom-to-image\<close> calls \<open>domtoimage.toBlob\<close>, and any other
  value logs a warning and then takes the \<open>html2canvas\<close> route.
\<close>

theorem generatePngBlob_dispatch:
  "generatePngBlob w ''html2canvas'' el =
     (case html2canvas w el html2canvas_options of
        Inl e \<Rightarrow> (Inr None, [Html2canvas el html2canvas_options,
                               ConsoleError ''Error generating PNG with html2canvas:''])
      | Inr c \<Rightarrow> (canvas_toBlob w c, [Html2canvas el html2canvas_options, CanvasToBlob c ''image/png'']))
   \<and> generatePngBlob w ''html-to-image'' el =
     (case htmlToImage_toBlob w el htmlToImage_options of
        Inl e \<Rightarrow> (Inr None, [HtmlToImageToBlob el htmlToImage_options,
                               ConsoleError ''Error generating PNG with html-to-image:''])
      | Inr b \<Rightarrow> (Inr b, [HtmlToImageToBlob el htmlToImage_options]))
   \<and> generatePngBlob w ''dom-to-image'' el =
     (case domtoimage_toBlob w el domtoimage_options of
        Inl e \<Rightarrow> (Inr None, [DomToImageToBlob el domtoimage_options,
                               ConsoleError ''Error generating PNG with dom-to-image:''])
      | Inr b \<Rightarrow> (Inr b, [DomToImageToBlob el domtoimage_options]))
   \<and> (m \<notin> {''html2canvas'', ''html-to-image'', ''dom-to-image''} \<longrightarrow>
        generatePngBlob w m el =
          (case html2canvas w el fallback_options of
             Inl e \<Rightarrow> (Inr None,
                         [ConsoleWarn (''Unknown PNG method: '' @ m
                                         @ '', falling back to html2canvas''),
                          Html2canvas el fallback_options,
                          ConsoleError (''Error generating PNG with '' @ m @ '':'')])
           | Inr c \<Rightarrow> (canvas_toBlob w c,
                         [ConsoleWarn (''Unknown PNG method: '' @ m
                                         @ '', falling back to html2canvas''),
                          Html2canvas el fallback_options, CanvasToBlob c ''image/png''])))"
  using generate_fallback [of m w el]
  by (simp add: generate_html2canvas generate_htmlToImage generate_domtoimage)

theorem generatePngBlob_dispatch_witness:
  "''webp'' \<notin> {''html2canvas'', ''html-to-image'', ''dom-to-image''}
   \<and> generatePngBlob sample_world ''webp'' (Element 1) =
       (Inr (Some (Blob 0)),
        [ConsoleWarn ''Unknown PNG method: webp, falling back to html2canvas'',
         Html2canvas (Element 1) fallback_options, CanvasToBlob (Canvas 0) ''image/png''])"
  using generatePngBlob_dispatch [of sample_world "Element 1" "''webp''"]
  by (simp add: sample_world_def)

text \<open>
  What the \<^verbatim>\<open>catch\<close> clause of \<open>generatePngBlob\<close> covers: an error of an awaited
  library call is caught and the result is \<^verbatim>\<open>null\<close>; the promise reaches the caller
  rejected exactly when \<open>html2canvas\<close> gave a canvas and \<^verbatim>\<open>canvas.toBlob\<close> threw.
\<close>

lemma generate_awaited_caught:
  "\<exists>b. fst (generatePngBlob w ''html-to-image'' el) = Inr b"
  "\<exists>b. fst (generatePngBlob w ''dom-to-image'' el) = Inr b"
  "html2canvas w el html2canvas_options = Inl e \<Longrightarrow>
     fst (generatePngBlob w ''html2canvas'' el) = Inr None"
  by (simp_all add: generate_htmlToImage generate_domtoimage generate_html2canvas
        split: sum.splits)

lemma generate_rejects_iff:
  "fst (generatePngBlob w m el) = Inl e \<longleftrightarrow>
     m \<noteq> ''html-to-image'' \<and> m \<noteq> ''dom-to-image''
     \<and> (\<exists>c. html2canvas w el (if m = ''html2canvas'' then html2canvas_options
                                 else fallback_options) = Inr c
             \<and> canvas_toBlob w c = Inl e)"
  by (auto simp: generate_defs io_simps split: sum.splits)

text \<open>
  C4. \<open>generatePngBlob\<close> is meant never to reject. With \<open>PNG_METHOD\<close> set to
  \<open>html2canvas\<close>, a canvas from \<open>html2canvas\<close> and \<^verbatim>\<open>canvas.toBlob\<close> throwing inside
  the promise that is returned without \<^verbatim>\<open>await\<close>, the \<^verbatim>\<open>catch\<close> clause is not run:
  nothing is logged and the caller receives the rejection.
\<close>

theorem generatePngBlob_toBlob_throws:
  "generatePngBlob throwing_world ''html2canvas'' (Element 1) =
     (Inl SecurityError, [Html2canvas (Element 1) html2canvas_options, CanvasToBlob (Canvas 0) ''image/png''])"
  by (simp add: generate_html2canvas throwing_world_def sample_world_def)

subsection \<open>The upload\<close>

lemmas upload_defs = uploadToCloudinary_def uploadToCloudinary_try_def uploadResult_def

text \<open>
  The value of \<open>uploadToCloudinary\<close> for every environment: never a rejection; the
  \<open>secure_url\<close> of the body when every stage up to an \<open>ok\<close> response succeeds and
  the body of that response parses to an object; \<^verbatim>\<open>null\<close> in every other case.
\<close>

lemma upload_value:
  "fst (uploadToCloudinary w m el) =
     Inr (case okResponse w m el of
            None \<Rightarrow> JNull
          | Some r \<Rightarrow> (case resp_json r of Inr (Some d) \<Rightarrow> secure_url d | _ \<Rightarrow> JNull))"
  by (simp add: upload_defs okResponse_def io_simps split: option.splits sum.splits)

text \<open>
  C1, as the specification states it: the \<open>secure_url\<close> is returned exactly when the
  card element is found, a blob is rasterised, the blob is read and the upload response is
  \<open>ok\<close>. In \<open>unparsed_world\<close> all of that holds, the body of the response does not
  parse, and the function returns \<^verbatim>\<open>null\<close>.
\<close>

theorem uploadToCloudinary_unparsed_body:
  "okResponse unparsed_world ''html2canvas'' (Element 0) = Some unparsed_response
   \<and> resp_ok unparsed_response
   \<and> resp_json unparsed_response = Inl SyntaxError
   \<and> fst (uploadToCloudinary unparsed_world ''html2canvas'' (Element 0)) = Inr JNull"
proof -
  have ok: "okResponse unparsed_world ''html2canvas'' (Element 0) = Some unparsed_response"
    by (simp add: okResponse_def generate_html2canvas unparsed_world_def sample_world_def
          unparsed_response_def truthy_def)
  then show ?thesis
    by (simp add: upload_value) (simp add: unparsed_response_def)
qed

text \<open>
  C1, amended. \<open>uploadToCloudinary\<close> never rejects. It returns the \<open>secure_url\<close> of
  the response body exactly when every stage succeeds in order: configuration present,
  card element found, a blob rasterised, the blob read as a data URL, the upload response
  \<open>ok\<close>, and the body of that response parsed to an object. It returns \<^verbatim>\<open>null\<close>
  when any of these fails.
\<close>

theorem uploadToCloudinary_result:
  "fst (uploadToCloudinary w m el) =
     Inr (case okResponse w m el of
            None \<Rightarrow> JNull
          | Some r \<Rightarrow> (case resp_json r of Inr (Some d) \<Rightarrow> secure_url d | _ \<Rightarrow> JNull))"
  by (rule upload_value)

theorem uploadToCloudinary_result_witness:
  "okResponse sample_world ''html2canvas'' (Element 0) = Some sample_response
   \<and> fst (uploadToCloudinary sample_world ''html2canvas'' (Element 0))
       = Inr (JString ''https://res.cloudinary.com/demo/card.png'')"
proof -
  have ok: "okResponse sample_world ''html2canvas'' (Element 0) = Some sample_response"
    by (simp add: okResponse_def generate_html2canvas sample_world_def sample_response_def
          truthy_def)
  from uploadToCloudinary_result [of sample_world "''html2canvas''" "Element 0"] ok
  show ?thesis
    by (simp add: sample_response_def)
qed

lemma calls_made_append: "calls_made (xs @ ys) = calls_made xs @ calls_made ys"
  by (induction xs) (auto split: option.splits)

lemma generate_calls:
  "calls_made (snd (generatePngBlob w m el)) \<in>
     {[''html2canvas''], [''html2canvas'', ''canvas.toBlob''],
      [''htmlToImage.toBlob''], [''domtoimage.toBlob'']}"
  by (simp add: generate_defs io_simps split: sum.splits)

lemma generate_no_fetch: "filter is_fetch (snd (generatePngBlob w m el)) = []"
  by (simp add: generate_defs io_simps split: sum.splits)

lemma upload_fetch_once: "length (filter is_fetch (snd (uploadToCloudinary w m el))) \<le> 1"
  by (simp add: upload_defs generate_no_fetch io_simps split: option.splits sum.splits)

lemma upload_calls_shape:
  "calls_made (snd (uploadToCloudinary w m el)) = []
   \<or> calls_made (snd (uploadToCloudinary w m el)) = [''querySelector'']
   \<or> (\<exists>c rest. rest \<in> {[], [''readAsDataURL''], [''readAsDataURL'', ''fetch''],
                          [''readAsDataURL'', ''fetch'', ''response.json''],
                          [''readAsDataURL'', ''fetch'', ''response.text'']}
         \<and> calls_made (snd (uploadToCloudinary w m el))
             = ''querySelector'' # calls_made (snd (generatePngBlob w m c)) @ rest)"
  by (simp add: upload_defs calls_made_append io_simps split: option.splits sum.splits) blast

lemma distinct_calls:
  assumes "g \<in> {[''html2canvas''], [''html2canvas'', ''canvas.toBlob''],
                 [''htmlToImage.toBlob''], [''domtoimage.toBlob'']}"
    and "rest \<in> {[], [''readAsDataURL''], [''readAsDataURL'', ''fetch''],
                   [''readAsDataURL'', ''fetch'', ''response.json''],
                   [''readAsDataURL'', ''fetch'', ''response.text'']}"
  shows "distinct (''querySelector'' # g @ rest)"
  using assms by auto

lemma upload_calls_distinct: "distinct (calls_made (snd (uploadToCloudinary w m el)))"
proof -
  let ?calls = "calls_made (snd (uploadToCloudinary w m el))"
  consider (none) "?calls = []" | (query) "?calls = [''querySelector'']"
    | (more) c rest where
        "rest \<in> {[], [''readAsDataURL''], [''readAsDataURL'', ''fetch''],
                   [''readAsDataURL'', ''fetch'', ''response.json''],
                   [''readAsDataURL'', ''fetch'', ''response.text'']}"
        "?calls = ''querySelector'' # calls_made (snd (generatePngBlob w m c)) @ rest"
    using upload_calls_shape [of w m el] by blast
  then show ?thesis
  proof cases
    case none
    then show ?thesis by simp
  next
    case query
    then show ?thesis by simp
  next
    case more
    from distinct_calls [OF generate_calls [of w m c] more(1)] more(2)
    show ?thesis by (simp only:)
  qed
qed

lemma upload_not_ok:
  assumes "Fetch url form \<in> set (snd (uploadToCloudinary w m el))"
    and "fetch_upload w url form = Inr resp" and "\<not> resp_ok resp"
  shows "fst (uploadToCloudinary w m el) = Inr JNull
         \<and> filter is_fetch (snd (uploadToCloudinary w m el)) = [Fetch url form]"
proof -
  have nf: "Fetch url form \<notin> set (snd (generatePngBlob w m c))" for c
    using generate_no_fetch [of w m c] by (metis filter_empty_conv is_fetch.simps(1))
  show ?thesis
    using assms
    by (auto simp add: upload_defs generate_no_fetch nf io_simps
          split: option.splits sum.splits if_splits)
qed

text \<open>
  C5. One invocation of \<open>uploadToCloudinary\<close> sends at most one upload request and
  calls no outside operation twice; when the request it sent is answered with a response
  that is not \<open>ok\<close>, the result is \<^verbatim>\<open>null\<close> and that request is the only one.
\<close>

theorem uploadToCloudinary_no_retry:
  "length (filter is_fetch (snd (uploadToCloudinary w m el))) \<le> 1
   \<and> distinct (calls_made (snd (uploadToCloudinary w m el)))
   \<and> (Fetch url form \<in> set (snd (uploadToCloudinary w m el))
        \<and> fetch_upload w url form = Inr resp \<and> \<not> resp_ok resp \<longrightarrow>
        fst (uploadToCloudinary w m el) = Inr JNull
        \<and> filter is_fetch (snd (uploadToCloudinary w m el)) = [Fetch url form])"
  using upload_fetch_once [of w m el] upload_calls_distinct [of w m el]
    upload_not_ok [of url form w m el resp]
  by blast

lemma refused_fields:
  "CLOUDINARY_CLOUD_NAME refused_world = Some ''demo''"
  "CLOUDINARY_UPLOAD_PRESET refused_world = Some ''preset''"
  "querySelector refused_world (Element 0) ''.fc-idcard'' = Some (Element 1)"
  "html2canvas refused_world e opts = Inr (Canvas 0)"
  "canvas_toBlob refused_world c = Inr (Some (Blob 0))"
  "readAsDataURL refused_world b = Inr ''data:image/png;base64,AAAA''"
  "fetch_upload refused_world url form = Inr refused_response"
  by (simp_all add: refused_world_def sample_world_def)

lemma refused_trace:
  "snd (uploadToCloudinary refused_world ''html2canvas'' (Element 0)) =
     [QuerySelector (Element 0) ''.fc-idcard'',
      Html2canvas (Element 1) html2canvas_options, CanvasToBlob (Canvas 0) ''image/png'',
      ReadAsDataURL (Blob 0),
      Fetch (uploadUrl refused_world) (uploadForm refused_world ''data:image/png;base64,AAAA''),
      ResponseText, ConsoleError ''Cloudinary upload failed:'']"
  by (simp add: upload_defs generate_html2canvas io_simps truthy_def refused_fields
        refused_response_def)

theorem uploadToCloudinary_no_retry_witness:
  "Fetch (uploadUrl refused_world) (uploadForm refused_world ''data:image/png;base64,AAAA'')
     \<in> set (snd (uploadToCloudinary refused_world ''html2canvas'' (Element 0)))
   \<and> fetch_upload refused_world (uploadUrl refused_world)
        (uploadForm refused_world ''data:image/png;base64,AAAA'') = Inr refused_response
   \<and> \<not> resp_ok refused_response
   \<and> fst (uploadToCloudinary refused_world ''html2canvas'' (Element 0)) = Inr JNull
   \<and> filter is_fetch (snd (uploadToCloudinary refused_world ''html2canvas'' (Element 0)))
       = [Fetch (uploadUrl refused_world)
            (uploadForm refused_world ''data:image/png;base64,AAAA'')]"
proof -
  have sent: "Fetch (uploadUrl refused_world)
                (uploadForm refused_world ''data:image/png;base64,AAAA'')
              \<in> set (snd (uploadToCloudinary refused_world ''html2canvas'' (Element 0)))"
    by (simp add: refused_trace)
  have answer: "fetch_upload refused_world (uploadUrl refused_world)
                  (uploadForm refused_world ''data:image/png;base64,AAAA'') = Inr refused_response"
    by (simp add: refused_fields)
  have refused: "\<not> resp_ok refused_response"
    by (simp add: refused_response_def)
  from uploadToCloudinary_no_retry
         [of refused_world "''html2canvas''" "Element 0" "uploadUrl refused_world"
             "uploadForm refused_world ''data:image/png;base64,AAAA''" refused_response]
       sent answer refused
  show ?thesis by blast
qed

subsection \<open>The loader\<close>

lemma castLikes_first:
  "castLikes c = (case first_non_null (likes_candidates c) of None \<Rightarrow> 0 | Some v \<Rightarrow> v)"
  by (simp add: castLikes_def likes_candidates_def coalesce_def or_default_def
        split: option.splits)

lemma castRecasts_first:
  "castRecasts c = (case first_non_null (recasts_candidates c) of None \<Rightarrow> 0 | Some v \<Rightarrow> v)"
  by (simp add: castRecasts_def recasts_candidates_def coalesce_def or_default_def
        split: option.splits)

lemma mapCasts_picks:
  "mapCasts cs = Inr casts \<Longrightarrow> list_all2 picks_first_non_null cs casts"
proof (induction cs arbitrary: casts)
  case Nil
  then show ?case by simp
next
  case (Cons entry cs)
  then show ?case
    by (cases entry)
      (auto simp: picks_first_non_null_def mapCast_def castLikes_first castRecasts_first
         split: sum.splits)
qed

lemma processCasts_picks:
  "processCasts body = Inr casts \<Longrightarrow>
     list_all2 picks_first_non_null (response_casts body) casts"
  by (auto simp: processCasts_def response_casts_def mapCasts_picks split: option.splits)

lemma loadCasts_ok:
  assumes "loadCasts w f s = (None, s')"
    and "fetch_casts w (castsUrl f) = Inr res" and "resp_ok res"
  shows "\<exists>body casts. resp_json res = Inr (Some body) \<and> processCasts body = Inr casts
           \<and> s' = s\<lparr>recentCasts := Some casts, user := setCounts body casts (user s)\<rparr>"
  using assms by (auto simp: loadCasts_def split: sum.splits option.splits)

text \<open>
  A run of \<open>loadNeynarData\<close> that returns after an \<open>ok\<close> casts response: the body
  parsed, every entry was mapped, and the state is that of the first request with the
  casts stored and the counts set.
\<close>

lemma loadNeynarData_ok:
  assumes "loadNeynarData w f sl s = (None, s')" and "truthy (NEYNAR_API_KEY w)"
    and "fetch_casts w (castsUrl f) = Inr res" and "resp_ok res"
  shows "\<exists>body casts s2. resp_json res = Inr (Some body) \<and> processCasts body = Inr casts
           \<and> s' = s2\<lparr>recentCasts := Some casts, user := setCounts body casts (user s2)\<rparr>
           \<and> (user s \<noteq> None \<longrightarrow> user s2 \<noteq> None)"
proof -
  obtain e2 s2 where l: "loadUser w f (if sl then s\<lparr>recentCasts := None\<rparr> else s) = (e2, s2)"
    by (cases "loadUser w f (if sl then s\<lparr>recentCasts := None\<rparr> else s)")
  with assms have c: "e2 = None" "loadCasts w f s2 = (None, s')"
    by (auto simp: loadNeynarData_def Let_def split: option.splits)
  have u: "user s \<noteq> None \<longrightarrow> user s2 \<noteq> None"
    using l by (auto simp: loadUser_def split: sum.splits option.splits if_splits)
  from loadCasts_ok [OF c(2) assms(3,4)] u show ?thesis by blast
qed

lemma round_double_small: "\<bar>x\<bar> < 2 ^ 53 \<Longrightarrow> round_double x = Number x"
  by (simp add: round_double_def Let_def nat_less_iff)

lemma fold_exact:
  "\<bar>a\<bar> + (\<Sum>c\<leftarrow>casts. \<bar>rc_likes c\<bar> + \<bar>rc_recasts c\<bar>) < 2 ^ 53 \<Longrightarrow>
     fold (\<lambda>cast sum. js_add (js_add sum (Number (or_zero (rc_likes cast))))
                         (Number (or_zero (rc_recasts cast))))
       casts (Number a)
     = Number (a + (\<Sum>c\<leftarrow>casts. rc_likes c + rc_recasts c))"
proof (induction casts arbitrary: a)
  case Nil
  then show ?case by simp
next
  case (Cons c casts)
  let ?l = "rc_likes c" and ?r = "rc_recasts c"
  let ?rest = "\<Sum>c\<leftarrow>casts. \<bar>rc_likes c\<bar> + \<bar>rc_recasts c\<bar>"
  have nonneg: "0 \<le> ?rest"
    by (rule sum_list_nonneg) auto
  from Cons.prems have bound: "\<bar>a\<bar> + \<bar>?l\<bar> + \<bar>?r\<bar> + ?rest < 2 ^ 53"
    by simp
  with nonneg have first: "\<bar>a + ?l\<bar> < 2 ^ 53" and second: "\<bar>a + ?l + ?r\<bar> < 2 ^ 53"
    by linarith+
  from bound have next_bound: "\<bar>a + ?l + ?r\<bar> + ?rest < 2 ^ 53"
    by linarith
  have "js_add (js_add (Number a) (Number (or_zero ?l))) (Number (or_zero ?r))
          = Number (a + ?l + ?r)"
    using first second by (simp add: or_zero_def round_double_small)
  with Cons.IH [OF next_bound] show ?case
    by (simp add: add.assoc)
qed

lemma totalReactions_exact:
  "(\<Sum>c\<leftarrow>casts. \<bar>rc_likes c\<bar> + \<bar>rc_recasts c\<bar>) < 2 ^ 53 \<Longrightarrow>
     totalReactions casts = Number (\<Sum>c\<leftarrow>casts. rc_likes c + rc_recasts c)"
  using fold_exact [of 0 casts] by (simp add: totalReactions_def)

lemma sample_load:
  "loadNeynarData sample_world 12345 True sample_state =
     (None,
      sample_state
        \<lparr>recentCasts :=
           Some [\<lparr>rc_hash = Some ''0xabc'', rc_text = ''gm'',
                  rc_timestamp = Some ''2024-01-01T00:00:00Z'', rc_likes = 7, rc_recasts = 2\<rparr>],
         user := Some (sample_user\<lparr>castsCount := Some 1, reactionsCount := Some (Number 9)\<rparr>)\<rparr>)"
  by (simp add: loadNeynarData_def loadUser_def loadCasts_def sample_world_def sample_state_def
        sample_cast_def truthy_def processCasts_def mapCast_def castLikes_def castRecasts_def
        coalesce_def or_default_def setCounts_def totalReactions_def or_zero_def sample_user_def
        round_double_def)

lemma sample_casts_response:
  "fetch_casts sample_world (castsUrl 12345) =
     Inr \<lparr>resp_ok = True, resp_status = 200,
          resp_json = Inr (Some \<lparr>j_result =
                        Some \<lparr>j_casts = Some [Some sample_cast], j_total = None\<rparr>\<rparr>),
          resp_text = Inr []\<rparr>"
  by (simp add: sample_world_def)

text \<open>
  C3. When \<open>loadNeynarData\<close> returns after an \<open>ok\<close> casts response whose body
  parsed, the casts it stores correspond one to one to the entries of the response, and
  the likes of each are the first non-null of \<open>reactions.likes_count\<close>,
  \<open>reactions.likes\<close>, \<open>like_count\<close> and \<open>likes\<close>, its recasts the first non-null of
  \<open>reactions.recasts_count\<close>, \<open>reactions.recasts\<close>, \<open>recast_count\<close> and
  \<open>recasts\<close>, and \<open>0\<close> when all four are absent.
\<close>

theorem loadNeynarData_reaction_fields:
  assumes "loadNeynarData w f sl s = (None, s')" and "truthy (NEYNAR_API_KEY w)"
    and "fetch_casts w (castsUrl f) = Inr res" and "resp_ok res"
    and "resp_json res = Inr (Some body)"
  shows "\<exists>casts. recentCasts s' = Some casts
           \<and> list_all2 picks_first_non_null (response_casts body) casts"
  using loadNeynarData_ok [OF assms(1-4)] assms(5) by (auto simp: processCasts_picks)

theorem loadNeynarData_reaction_fields_witness:
  "loadNeynarData sample_world 12345 True sample_state =
     (None,
      sample_state
        \<lparr>recentCasts :=
           Some [\<lparr>rc_hash = Some ''0xabc'', rc_text = ''gm'',
                  rc_timestamp = Some ''2024-01-01T00:00:00Z'', rc_likes = 7, rc_recasts = 2\<rparr>],
         user := Some (sample_user\<lparr>castsCount := Some 1, reactionsCount := Some (Number 9)\<rparr>)\<rparr>)
   \<and> truthy (NEYNAR_API_KEY sample_world)
   \<and> list_all2 picks_first_non_null [Some sample_cast]
        [\<lparr>rc_hash = Some ''0xabc'', rc_text = ''gm'',
          rc_timestamp = Some ''2024-01-01T00:00:00Z'', rc_likes = 7, rc_recasts = 2\<rparr>]"
proof -
  have key: "truthy (NEYNAR_API_KEY sample_world)"
    by (simp add: sample_world_def truthy_def)
  from loadNeynarData_reaction_fields [OF sample_load key sample_casts_response]
  have "\<exists>casts.
          recentCasts
            (sample_state
               \<lparr>recentCasts :=
                  Some [\<lparr>rc_hash = Some ''0xabc'', rc_text = ''gm'',
                         rc_timestamp = Some ''2024-01-01T00:00:00Z'', rc_likes = 7,
                         rc_recasts = 2\<rparr>],
                user := Some (sample_user\<lparr>castsCount := Some 1, reactionsCount := Some (Number 9)\<rparr>)\<rparr>)
            = Some casts
          \<and> list_all2 picks_first_non_null
               (response_casts \<lparr>j_result = Some \<lparr>j_casts = Some [Some sample_cast],
                                                   j_total = None\<rparr>\<rparr>) casts"
    by simp
  then have "list_all2 picks_first_non_null [Some sample_cast]
        [\<lparr>rc_hash = Some ''0xabc'', rc_text = ''gm'',
          rc_timestamp = Some ''2024-01-01T00:00:00Z'', rc_likes = 7, rc_recasts = 2\<rparr>]"
    by (simp add: response_casts_def)
  with sample_load key show ?thesis by simp
qed

lemma loadUser_settles: "user_request_settles w f \<Longrightarrow> fst (loadUser w f s) = None"
  by (auto simp: user_request_settles_def loadUser_def
        split: sum.splits option.splits if_splits)

lemma loadUser_keeps_user: "user s \<noteq> None \<Longrightarrow> user (snd (loadUser w f s)) \<noteq> None"
  by (auto simp: loadUser_def split: sum.splits option.splits)

lemma mapCasts_Some: "mapCasts (map Some cs) = Inr (map mapCast cs)"
  by (induction cs) simp_all

lemma processCasts_Some:
  "response_casts body = map Some cs \<Longrightarrow> processCasts body = Inr (map mapCast cs)"
  by (cases cs)
    (auto simp: processCasts_def response_casts_def mapCasts_Some split: option.splits)

lemma loadCasts_value:
  assumes "fetch_casts w (castsUrl f) = Inr res" and "resp_ok res"
    and "resp_json res = Inr (Some body)" and "response_casts body = map Some cs"
  shows "loadCasts w f s =
     (None, s\<lparr>recentCasts := Some (map mapCast cs),
               user := setCounts body (map mapCast cs) (user s)\<rparr>)"
  using assms by (simp add: loadCasts_def processCasts_Some)

text \<open>Rounding at the first integer that a double does not hold.\<close>

lemma bit_length_double: "0 < n \<Longrightarrow> bit_length (2 * n) = Suc (bit_length n)"
  by (subst bit_length.simps) simp

lemma bit_length_pow: "bit_length (2 ^ k) = Suc k"
proof (induction k)
  case 0
  show ?case by (simp add: bit_length.simps [of "Suc 0"] bit_length.simps [of 0])
next
  case (Suc k)
  then show ?case by (simp add: bit_length_double)
qed

lemma bit_length_pow_plus1: "0 < k \<Longrightarrow> bit_length (2 ^ k + 1) = Suc k"
proof (induction k)
  case 0
  then show ?case by simp
next
  case (Suc k)
  have "bit_length (2 ^ Suc k + 1) = Suc (bit_length ((2 ^ Suc k + 1) div 2))"
    by (subst bit_length.simps) simp
  also have "(2 ^ Suc k + 1) div 2 = (2::nat) ^ k"
    by simp
  finally show ?case by (simp add: bit_length_pow)
qed

lemma bit_length_54:
  "bit_length 9007199254740992 = 54" "bit_length 9007199254740993 = 54"
  using bit_length_pow [of 53] bit_length_pow_plus1 [of 53] by simp_all

lemma totalReactions_rounds:
  "totalReactions [\<lparr>rc_hash = None, rc_text = [], rc_timestamp = None,
                     rc_likes = 9007199254740992, rc_recasts = 1\<rparr>]
     = Number 9007199254740992"
  by (simp add: totalReactions_def or_zero_def round_double_def bit_length_54 Let_def)

text \<open>
  C8, as the specification states it: after every casts response that is \<open>ok\<close> the
  count is set to the sum. In \<open>unparsed_casts_world\<close> the response is \<open>ok\<close>, its
  body does not parse, the loader rejects before line 252 and the count stays at 1000.
  And the sum of line 254 is a sum of doubles: likes of \<open>2^53\<close> and one recast give
  \<open>2^53\<close>.
\<close>

theorem loadNeynarData_unparsed_casts:
  "fetch_casts unparsed_casts_world (castsUrl 12345) = Inr unparsed_casts_response
   \<and> resp_ok unparsed_casts_response
   \<and> Option.bind (user sample_state) reactionsCount = Some (Number 1000)
   \<and> loadNeynarData unparsed_casts_world 12345 False sample_state
       = (Some SyntaxError, sample_state)
   \<and> totalReactions [\<lparr>rc_hash = None, rc_text = [], rc_timestamp = None,
                        rc_likes = 9007199254740992, rc_recasts = 1\<rparr>]
       = Number 9007199254740992"
  by (simp add: totalReactions_rounds)
     (simp add: loadNeynarData_def loadUser_def loadCasts_def unparsed_casts_world_def
        sample_world_def unparsed_casts_response_def truthy_def sample_state_def
        sample_user_def)

text \<open>
  C8, amended. When the first request lets the loader go on, and the casts response is
  \<open>ok\<close>, its body parses to a value other than \<^verbatim>\<open>null\<close> and no entry of its casts
  is \<^verbatim>\<open>null\<close>, then \<open>loadNeynarData\<close> returns, stores one cast per entry, and sets
  the \<open>reactionsCount\<close> of the user, if there is one, to the sum of likes and recasts
  over these casts, added from left to right as doubles, whatever the count was before;
  a user present before is still present. Where the absolute values of the counts add
  up to less than \<open>2^53\<close>, that sum is the exact sum.
\<close>

theorem loadNeynarData_reactionsCount:
  assumes "truthy (NEYNAR_API_KEY w)" and "user_request_settles w f"
    and "fetch_casts w (castsUrl f) = Inr res" and "resp_ok res"
    and "resp_json res = Inr (Some body)" and "response_casts body = map Some cs"
  shows "\<exists>s'. loadNeynarData w f sl s = (None, s')
           \<and> recentCasts s' = Some (map mapCast cs)
           \<and> (\<forall>u'. user s' = Some u' \<longrightarrow>
                  reactionsCount u' = Some (totalReactions (map mapCast cs)))
           \<and> (user s \<noteq> None \<longrightarrow> user s' \<noteq> None)
           \<and> ((\<Sum>c\<leftarrow>cs. \<bar>castLikes c\<bar> + \<bar>castRecasts c\<bar>) < 2 ^ 53 \<longrightarrow>
                  totalReactions (map mapCast cs)
                    = Number (\<Sum>c\<leftarrow>cs. castLikes c + castRecasts c))"
proof -
  let ?s1 = "if sl then s\<lparr>recentCasts := None\<rparr> else s"
  obtain e2 s2 where l: "loadUser w f ?s1 = (e2, s2)"
    by (cases "loadUser w f ?s1")
  with loadUser_settles [OF assms(2), of ?s1] have e2: "e2 = None"
    by simp
  have u: "user s \<noteq> None \<longrightarrow> user s2 \<noteq> None"
    using loadUser_keeps_user [of ?s1 w f] l by (simp split: if_splits)
  have run: "loadNeynarData w f sl s =
      (None, s2\<lparr>recentCasts := Some (map mapCast cs),
                 user := setCounts body (map mapCast cs) (user s2)\<rparr>)"
    using assms(1) l e2 loadCasts_value [OF assms(3-6), of s2]
    by (simp add: loadNeynarData_def Let_def)
  have exact: "(\<Sum>c\<leftarrow>cs. \<bar>castLikes c\<bar> + \<bar>castRecasts c\<bar>) < 2 ^ 53 \<longrightarrow>
                  totalReactions (map mapCast cs)
                    = Number (\<Sum>c\<leftarrow>cs. castLikes c + castRecasts c)"
    using totalReactions_exact [of "map mapCast cs"] by (simp add: comp_def mapCast_def)
  from run u exact show ?thesis
    by (auto simp: setCounts_def split: option.splits)
qed

lemma two_casts_fields:
  "truthy (NEYNAR_API_KEY two_casts_world)"
  "fetch_casts two_casts_world url = Inr two_casts_response"
  "resp_ok two_casts_response"
  "resp_json two_casts_response = Inr (Some two_casts_body)"
  "response_casts two_casts_body = map Some [sample_cast, second_cast]"
  by (simp_all add: two_casts_world_def sample_world_def truthy_def two_casts_response_def
        two_casts_body_def response_casts_def)

lemma two_casts_settles: "user_request_settles two_casts_world 12345"
  by (simp add: user_request_settles_def two_casts_world_def sample_world_def)

lemma two_casts_counts:
  "castLikes sample_cast = 7" "castRecasts sample_cast = 2"
  "castLikes second_cast = 3" "castRecasts second_cast = 0"
  by (simp_all add: castLikes_def castRecasts_def sample_cast_def second_cast_def
        coalesce_def or_default_def)

theorem loadNeynarData_reactionsCount_witness:
  "truthy (NEYNAR_API_KEY two_casts_world)
   \<and> user_request_settles two_casts_world 12345
   \<and> fetch_casts two_casts_world (castsUrl 12345) = Inr two_casts_response
   \<and> resp_ok two_casts_response
   \<and> resp_json two_casts_response = Inr (Some two_casts_body)
   \<and> response_casts two_casts_body = map Some [sample_cast, second_cast]
   \<and> Option.bind (user sample_state) reactionsCount = Some (Number 1000)
   \<and> (\<exists>s'. loadNeynarData two_casts_world 12345 False sample_state = (None, s')
         \<and> recentCasts s' = Some (map mapCast [sample_cast, second_cast])
         \<and> Option.bind (user s') reactionsCount = Some (Number 12))"
proof -
  from loadNeynarData_reactionsCount
         [OF two_casts_fields(1) two_casts_settles two_casts_fields(2-5),
          of False sample_state]
  obtain s' where run: "loadNeynarData two_casts_world 12345 False sample_state = (None, s')"
    and stored: "recentCasts s' = Some (map mapCast [sample_cast, second_cast])"
    and count: "\<forall>u'. user s' = Some u' \<longrightarrow>
                  reactionsCount u'
                    = Some (totalReactions (map mapCast [sample_cast, second_cast]))"
    and kept: "user sample_state \<noteq> None \<longrightarrow> user s' \<noteq> None"
    and exact: "(\<Sum>c\<leftarrow>[sample_cast, second_cast]. \<bar>castLikes c\<bar> + \<bar>castRecasts c\<bar>) < 2 ^ 53 \<longrightarrow>
                  totalReactions (map mapCast [sample_cast, second_cast])
                    = Number (\<Sum>c\<leftarrow>[sample_cast, second_cast]. castLikes c + castRecasts c)"
    by blast
  from exact have total: "totalReactions (map mapCast [sample_cast, second_cast]) = Number 12"
    by (simp add: two_casts_counts)
  from kept obtain u' where "user s' = Some u'"
    by (auto simp: sample_state_def)
  with count total have "Option.bind (user s') reactionsCount = Some (Number 12)"
    by simp
  with run stored have
    "\<exists>s'. loadNeynarData two_casts_world 12345 False sample_state = (None, s')
         \<and> recentCasts s' = Some (map mapCast [sample_cast, second_cast])
         \<and> Option.bind (user s') reactionsCount = Some (Number 12)"
    by blast
  moreover have "Option.bind (user sample_state) reactionsCount = Some (Number 1000)"
    by (simp add: sample_state_def sample_user_def)
  ultimately show ?thesis
    using two_casts_fields two_casts_settles by blast
qed

subsection \<open>The share guard\<close>

text \<open>
  An invocation whose render had the flag set returns at once, with no event and no
  change of state, and the share button is disabled exactly while the flag is set.
\<close>

lemma handleShare_returns_at_guard:
  "(sharing s \<longrightarrow> handleShare w m s = (s, []))
   \<and> disabled (shareButton (Some (sharing s))) = sharing s"
  by (simp add: handleShare_def share_begin_def shareButton_def or_default_def Let_def)




end
